theory Spec2Isabelle
  imports Main "HOL-Library.AList"
begin

section \<open>Python values\<close>

text \<open>
  The mappings handed to the EMR API are nested Python dictionaries whose leaves are
  strings, numbers, \<open>None\<close> and lists. A dictionary literal is kept as the list of its items in
  the order the source writes them.
\<close>

datatype pyval =
    PNone
  | PBool bool
  | PInt int
  | PStr string
  | PList "pyval list"
  | PDict "(string \<times> pyval) list"

text \<open>
  The expression \<open>xs if xs else []\<close> on an \<open>Optional[List]\<close>: \<open>None\<close> and the empty
  list are falsy and give a new empty list, any other list is passed on.
\<close>

fun list_or_empty :: "'a list option \<Rightarrow> 'a list" where
  "list_or_empty None = []"
| "list_or_empty (Some xs) = (if xs \<noteq> [] then xs else [])"

section \<open>emr\_code.py\<close>

subsection \<open>StepFailureAction\<close>

datatype StepFailureAction =
    TERMINATE_JOB_FLOW
  | TERMINATE_CLUSTER
  | CANCEL_AND_WAIT
  | CONTINUE

text \<open>The \<open>name\<close> attribute of an enum member: the identifier it is declared under.\<close>

fun StepFailureAction_name :: "StepFailureAction \<Rightarrow> string" where
  "StepFailureAction_name TERMINATE_JOB_FLOW = ''TERMINATE_JOB_FLOW''"
| "StepFailureAction_name TERMINATE_CLUSTER = ''TERMINATE_CLUSTER''"
| "StepFailureAction_name CANCEL_AND_WAIT = ''CANCEL_AND_WAIT''"
| "StepFailureAction_name CONTINUE = ''CONTINUE''"

text \<open>The \<open>value\<close> attribute: the right-hand side of the member's declaration.\<close>

fun StepFailureAction_value :: "StepFailureAction \<Rightarrow> string" where
  "StepFailureAction_value TERMINATE_JOB_FLOW = ''TERMINATE_JOB_FLOW''"
| "StepFailureAction_value TERMINATE_CLUSTER = ''TERMINATE_CLUSTER''"
| "StepFailureAction_value CANCEL_AND_WAIT = ''CANCEL_AND_WAIT''"
| "StepFailureAction_value CONTINUE = ''CONTINUE''"

subsection \<open>The framework objects the module touches\<close>

text \<open>
  A construct of the provisioning framework is referred to by its path in the construct
  tree. Of a bucket only \<open>bucket_name\<close> is read. \<open>BucketDeploymentProps\<close> carries the
  three keyword arguments that \<open>Code.from_path\<close> sets; the key prefix is optional in
  props that a client builds itself and hands to \<open>Code.from_props\<close>.
\<close>

type_synonym Construct = string

record Bucket =
  bucket_name :: string

datatype Source = Asset string

record BucketDeploymentProps =
  sources :: "Source list"
  destination_bucket :: Bucket
  destination_key_prefix :: "string option"

text \<open>
  The resource that \<open>BucketDeployment(scope, id, **props)\<close> declares: scope, id and
  keyword arguments.
\<close>

record BucketDeployment =
  bd_scope :: Construct
  bd_id :: string
  bd_values :: BucketDeploymentProps

text \<open>
  The framework's constructor is not part of the module, and it may refuse a declaration
  by raising, for instance when the scope already holds a construct with the same id.
  Which declarations it accepts is a parameter of the model: a test on the resources
  declared so far and the resource to be declared. An accepted declaration is added to
  the tree; a refused one raises and adds nothing.
\<close>

type_synonym framework = "BucketDeployment list \<Rightarrow> BucketDeployment \<Rightarrow> bool"

datatype error = FrameworkError

text \<open>
  The framework's rule on ids, for the concrete instances: inside an id every path
  separator is replaced by two dashes, and a scope holds one construct per id.
\<close>

fun sanitize_id :: "string \<Rightarrow> string" where
  "sanitize_id [] = []"
| "sanitize_id (c # cs) = (if c = CHR ''/'' then ''--'' @ sanitize_id cs else c # sanitize_id cs)"

definition no_duplicate_id :: framework where
  "no_duplicate_id t d =
     ((bd_scope d, sanitize_id (bd_id d)) \<notin>
        set (map (\<lambda>n. (bd_scope n, sanitize_id (bd_id n))) t))"

subsection \<open>Objects and the store\<close>

text \<open>
  \<open>EmrCode\<close> objects are mutable and shared: several bootstrap actions and steps may
  hold the same \<open>EmrCode\<close>. Objects therefore live in a store and are referred to by
  address. The fields carry the names of the Python attributes without the leading
  underscore; \<open>_id\<close> is \<open>code_id\<close>, and the attributes of \<open>EmrBootstrapAction\<close> and
  \<open>EmrStep\<close> are prefixed with \<open>ba_\<close> and \<open>step_\<close>.
\<close>

type_synonym addr = nat

record EmrCode =
  deployment_props :: BucketDeploymentProps
  deployment_bucket :: Bucket
  deployment_prefix :: "string option"
  code_id :: "string option"
  bucket_deployment :: "BucketDeployment option"

record EmrBootstrapAction =
  ba_name :: string
  ba_path :: string
  ba_args :: "string list option"
  ba_code :: "addr option"

record EmrStep =
  step_name :: string
  step_jar :: string
  step_main_class :: "string option"
  step_args :: "string list option"
  step_action_on_failure :: StepFailureAction
  step_properties :: "pyval list option"
  step_code :: "addr option"

text \<open>
  The world: one store per class (every address denotes an object of each store; a
  constructor takes the next unused address), and the list of the deployment resources
  declared so far, in the order of their declaration.
\<close>

record world =
  code_store :: "addr \<Rightarrow> EmrCode"
  action_store :: "addr \<Rightarrow> EmrBootstrapAction"
  step_store :: "addr \<Rightarrow> EmrStep"
  next_addr :: addr
  tree :: "BucketDeployment list"

subsection \<open>EmrCode\<close>

definition EmrCode_init ::
  "BucketDeploymentProps \<Rightarrow> string option \<Rightarrow> world \<Rightarrow> addr \<times> world" where
  "EmrCode_init props ident w =
     (let self = next_addr w;
          obj = \<lparr>deployment_props = props,
                 deployment_bucket = destination_bucket props,
                 deployment_prefix = destination_key_prefix props,
                 code_id = ident,
                 bucket_deployment = None\<rparr>
      in (self, w\<lparr>code_store := (code_store w)(self := obj), next_addr := Suc self\<rparr>))"

definition from_path :: "string \<Rightarrow> Bucket \<Rightarrow> string \<Rightarrow> world \<Rightarrow> addr \<times> world" where
  "from_path path bucket prefix w =
     EmrCode_init \<lparr>sources = [Asset path],
                   destination_bucket = bucket,
                   destination_key_prefix = Some prefix\<rparr> None w"

definition from_props :: "BucketDeploymentProps \<Rightarrow> world \<Rightarrow> addr \<times> world" where
  "from_props props w = EmrCode_init props None w"

text \<open>
  A replacement field of an f-string holds \<open>str\<close> of its value: a string stands for
  itself and \<open>None\<close> gives the text \<open>None\<close>.
\<close>

fun format_field :: "string option \<Rightarrow> string" where
  "format_field None = ''None''"
| "format_field (Some s) = s"

definition s3_path :: "EmrCode \<Rightarrow> string" where
  "s3_path c =
     ''s3://'' @ bucket_name (deployment_bucket c) @ ''/'' @ format_field (deployment_prefix c)"

text \<open>
  The id under which the deployment is declared: \<open>_id\<close> is used when it is truthy,
  that is neither \<open>None\<close> nor the empty string.
\<close>

definition deployment_id :: "EmrCode \<Rightarrow> string" where
  "deployment_id c =
     (case code_id c of
        None \<Rightarrow> ''BucketDeployment''
      | Some i \<Rightarrow> if i \<noteq> [] then ''BucketDeployment_'' @ i else ''BucketDeployment'')"

text \<open>
  \<open>bind_scope\<close> gives what the call returns or the exception it raises, and the world
  as the call leaves it. When the framework refuses the declaration the exception leaves
  the constructor before \<open>_bucket_deployment\<close> is assigned.
\<close>

definition EmrCode_bind_scope ::
  "framework \<Rightarrow> addr \<Rightarrow> Construct \<Rightarrow> world \<Rightarrow> (error + pyval) \<times> world" where
  "EmrCode_bind_scope accepts self scope w =
     (let c = code_store w self
      in case bucket_deployment c of
           None \<Rightarrow>
             (let d = \<lparr>bd_scope = scope, bd_id = deployment_id c,
                       bd_values = deployment_props c\<rparr>
              in if accepts (tree w) d
                 then (let w' = w\<lparr>code_store :=
                                     (code_store w)(self := c\<lparr>bucket_deployment := Some d\<rparr>),
                                   tree := tree w @ [d]\<rparr>
                       in (Inr (PDict [(''S3Path'', PStr (s3_path (code_store w' self)))]), w'))
                 else (Inl FrameworkError, w))
         | Some d \<Rightarrow> (Inr (PDict [(''S3Path'', PStr (s3_path c))]), w))"

text \<open>
  The statement \<open>if self._code is not None: self._code.bind_scope(scope)\<close> of a bootstrap
  action or step: the mapping of the code is dropped, an exception goes on to the caller.
\<close>

definition bind_code_if_any ::
  "framework \<Rightarrow> addr option \<Rightarrow> Construct \<Rightarrow> world \<Rightarrow> (error + unit) \<times> world" where
  "bind_code_if_any accepts code scope w =
     (case code of
        None \<Rightarrow> (Inr (), w)
      | Some c \<Rightarrow>
          (case EmrCode_bind_scope accepts c scope w of
             (Inl e, w') \<Rightarrow> (Inl e, w')
           | (Inr m, w') \<Rightarrow> (Inr (), w')))"

subsection \<open>EmrBootstrapAction\<close>

definition EmrBootstrapAction_init ::
  "string \<Rightarrow> string \<Rightarrow> string list option \<Rightarrow> addr option \<Rightarrow> world \<Rightarrow> addr \<times> world" where
  "EmrBootstrapAction_init name path args code w =
     (let self = next_addr w;
          obj = \<lparr>ba_name = name, ba_path = path, ba_args = args, ba_code = code\<rparr>
      in (self, w\<lparr>action_store := (action_store w)(self := obj), next_addr := Suc self\<rparr>))"

definition EmrBootstrapAction_bind_scope ::
  "framework \<Rightarrow> addr \<Rightarrow> Construct \<Rightarrow> world \<Rightarrow> (error + pyval) \<times> world" where
  "EmrBootstrapAction_bind_scope accepts self scope w =
     (case bind_code_if_any accepts (ba_code (action_store w self)) scope w of
        (Inl e, w') \<Rightarrow> (Inl e, w')
      | (Inr u, w') \<Rightarrow>
          (let a = action_store w' self
           in (Inr (PDict [(''Name'', PStr (ba_name a)),
                           (''ScriptBootstrapAction'',
                              PDict [(''Path'', PStr (ba_path a)),
                                     (''Args'', PList (map PStr (list_or_empty (ba_args a))))])]),
               w')))"

subsection \<open>EmrStep\<close>

text \<open>
  A keyword argument with a default that is not \<open>None\<close> is either left out or passed.
\<close>

datatype 'a kwarg = Omitted | Passed 'a

fun kwarg_default :: "'a \<Rightarrow> 'a kwarg \<Rightarrow> 'a" where
  "kwarg_default d Omitted = d"
| "kwarg_default d (Passed v) = v"

definition EmrStep_init ::
  "string \<Rightarrow> string \<Rightarrow> string option \<Rightarrow> string list option \<Rightarrow> StepFailureAction kwarg
     \<Rightarrow> pyval list option \<Rightarrow> addr option \<Rightarrow> world \<Rightarrow> addr \<times> world" where
  "EmrStep_init name jar main_class args action_on_failure properties code w =
     (let self = next_addr w;
          obj = \<lparr>step_name = name, step_jar = jar, step_main_class = main_class,
                 step_args = args,
                 step_action_on_failure = kwarg_default CONTINUE action_on_failure,
                 step_properties = properties, step_code = code\<rparr>
      in (self, w\<lparr>step_store := (step_store w)(self := obj), next_addr := Suc self\<rparr>))"

fun opt_str :: "string option \<Rightarrow> pyval" where
  "opt_str None = PNone"
| "opt_str (Some s) = PStr s"

definition EmrStep_bind_scope ::
  "framework \<Rightarrow> addr \<Rightarrow> Construct \<Rightarrow> world \<Rightarrow> (error + pyval) \<times> world" where
  "EmrStep_bind_scope accepts self scope w =
     (case bind_code_if_any accepts (step_code (step_store w self)) scope w of
        (Inl e, w') \<Rightarrow> (Inl e, w')
      | (Inr u, w') \<Rightarrow>
          (let s = step_store w' self
           in (Inr (PDict [(''Name'', PStr (step_name s)),
                           (''ActionOnFailure'',
                              PStr (StepFailureAction_name (step_action_on_failure s))),
                           (''HadoopJarStep'',
                              PDict [(''Jar'', PStr (step_jar s)),
                                     (''MainClass'', opt_str (step_main_class s)),
                                     (''Args'', PList (map PStr (list_or_empty (step_args s)))),
                                     (''Properties'',
                                        PList (list_or_empty (step_properties s)))])]),
               w')))"

subsection \<open>Sequences of calls\<close>

text \<open>
  A client binds objects in any order, any number of times, to any scopes. A call names
  the object and the scope; \<open>bind_calls\<close> performs a list of calls from left to right,
  drops the mappings they return and goes on after a call that raised, as a client that
  catches the exception does.
\<close>

datatype call =
    BindCode addr Construct
  | BindAction addr Construct
  | BindStep addr Construct

fun bind_call :: "framework \<Rightarrow> call \<Rightarrow> world \<Rightarrow> world" where
  "bind_call accepts (BindCode a scope) w = snd (EmrCode_bind_scope accepts a scope w)"
| "bind_call accepts (BindAction a scope) w =
     snd (EmrBootstrapAction_bind_scope accepts a scope w)"
| "bind_call accepts (BindStep a scope) w = snd (EmrStep_bind_scope accepts a scope w)"

fun bind_calls :: "framework \<Rightarrow> call list \<Rightarrow> world \<Rightarrow> world" where
  "bind_calls accepts [] w = w"
| "bind_calls accepts (c # cs) w = bind_calls accepts cs (bind_call accepts c w)"

text \<open>
  The \<open>EmrCode\<close> whose \<open>bind_scope\<close> a call reaches, if any: the object itself, or the
  \<open>_code\<close> of the bootstrap action or step.
\<close>

fun bound_code :: "world \<Rightarrow> call \<Rightarrow> addr option" where
  "bound_code w (BindCode a scope) = Some a"
| "bound_code w (BindAction a scope) = ba_code (action_store w a)"
| "bound_code w (BindStep a scope) = step_code (step_store w a)"

text \<open>An \<open>EmrCode\<close> is unbound while its \<open>_bucket_deployment\<close> is \<open>None\<close>.\<close>

definition unbound :: "world \<Rightarrow> addr \<Rightarrow> bool" where
  "unbound w a = (bucket_deployment (code_store w a) = None)"

text \<open>
  The distinct \<open>EmrCode\<close> objects, unbound in \<open>w\<close>, that the calls \<open>cs\<close> reach.
\<close>

definition first_bound :: "world \<Rightarrow> call list \<Rightarrow> addr list" where
  "first_bound w cs = remdups (filter (unbound w) (List.map_filter (bound_code w) cs))"

text \<open>
  The resource that binding the code at \<open>a\<close> under \<open>scope\<close> asks the framework for.
\<close>

definition requested :: "world \<Rightarrow> addr \<Rightarrow> Construct \<Rightarrow> BucketDeployment" where
  "requested w a scope =
     \<lparr>bd_scope = scope, bd_id = deployment_id (code_store w a),
      bd_values = deployment_props (code_store w a)\<rparr>"

text \<open>
  A bootstrap action or step with the given \<open>_code\<close> can be bound under \<open>scope\<close> without
  an exception: it has no code, or the code is bound already, or the framework accepts
  the declaration.
\<close>

definition binds :: "framework \<Rightarrow> world \<Rightarrow> Construct \<Rightarrow> addr option \<Rightarrow> bool" where
  "binds accepts w scope code =
     (case code of
        None \<Rightarrow> True
      | Some c \<Rightarrow> (if unbound w c then accepts (tree w) (requested w c scope) else True))"

text \<open>The world before any object is made: no resource is declared.\<close>

definition empty_world :: world where
  "empty_world =
     \<lparr>code_store = (\<lambda>_. \<lparr>deployment_props = \<lparr>sources = [], destination_bucket = \<lparr>bucket_name = []\<rparr>,
                                          destination_key_prefix = None\<rparr>,
                      deployment_bucket = \<lparr>bucket_name = []\<rparr>,
                      deployment_prefix = None,
                      code_id = None,
                      bucket_deployment = None\<rparr>),
      action_store = (\<lambda>_. \<lparr>ba_name = [], ba_path = [], ba_args = None, ba_code = None\<rparr>),
      step_store = (\<lambda>_. \<lparr>step_name = [], step_jar = [], step_main_class = None, step_args = None,
                     step_action_on_failure = CONTINUE, step_properties = None,
                     step_code = None\<rparr>),
      next_addr = 0,
      tree = []\<rparr>"

section \<open>emr\_utilities.py\<close>

subsection \<open>The framework objects the module touches\<close>

datatype Effect = ALLOW | DENY

record PolicyStatement =
  effect :: Effect
  actions :: "string list"
  resources :: "string list"

datatype AssetCode = CodeAsset string

datatype Runtime = PYTHON_3_7 | Runtime string bool

datatype Duration = Minutes nat

text \<open>
  \<open>FunctionProps\<close> holds the keyword arguments of a Lambda function declaration. The
  ones that may be absent from its \<open>_values\<close> are options; \<open>environment\<close> is a dictionary
  from names to strings, kept as the list of its items. The keyword \<open>code\<close> is the
  field \<open>fn_code\<close>.
\<close>

record FunctionProps =
  fn_code :: AssetCode
  handler :: string
  runtime :: Runtime
  timeout :: "Duration option"
  initial_policy :: "PolicyStatement list option"
  environment :: "(string \<times> string) list option"

text \<open>A declared function: scope, id and the keyword arguments it was declared with.\<close>

record Function =
  fn_scope :: Construct
  fn_id :: string
  fn_values :: FunctionProps

record StateMachine =
  state_machine_arn :: string

record Topic =
  topic_arn :: string

text \<open>
  A construct declared under \<open>scope\<close> with \<open>id\<close> is the scope of its own children; its
  path is the path of the scope, a separator and the id as the framework keeps it.
\<close>

definition Construct_init :: "Construct \<Rightarrow> string \<Rightarrow> Construct" where
  "Construct_init scope ident = scope @ ''/'' @ sanitize_id ident"

subsection \<open>StepFunctionLambdas\<close>

record StepFunctionLambdas =
  run_job_flow :: Function
  add_job_flow_steps :: Function
  check_step_status :: Function

text \<open>
  \<open>_lambda_path\<close> comes from the package's \<open>__init__\<close>, which is not part of the two
  modules: it is a parameter.
\<close>

definition StepFunctionLambdas_init ::
  "(string \<Rightarrow> string) \<Rightarrow> Construct \<Rightarrow> string \<Rightarrow> StepFunctionLambdas" where
  "StepFunctionLambdas_init lambda_path scope ident =
     (let self = Construct_init scope ident;
          code = CodeAsset (lambda_path ''emr_utilities'')
      in \<lparr>run_job_flow =
             \<lparr>fn_scope = self, fn_id = ''StepFunctionLambdas_AddJobFlow'',
              fn_values =
                \<lparr>fn_code = code, handler = ''run_job_flow.handler'', runtime = PYTHON_3_7,
                 timeout = Some (Minutes 5),
                 initial_policy =
                   Some [\<lparr>effect = ALLOW,
                          actions = [''elasticmapreduce:RunJobFlow'',
                                     ''elasticmapreduce:ListClusters'',
                                     ''elasticmapreduce:ListSteps''],
                          resources = [''*'']\<rparr>],
                 environment = None\<rparr>\<rparr>,
           add_job_flow_steps =
             \<lparr>fn_scope = self, fn_id = ''StepFunctionLambdas_AddJobFlowSteps'',
              fn_values =
                \<lparr>fn_code = code, handler = ''add_job_flow_steps.handler'', runtime = PYTHON_3_7,
                 timeout = Some (Minutes 5),
                 initial_policy =
                   Some [\<lparr>effect = ALLOW,
                          actions = [''elasticmapreduce:AddJobFlowSteps''],
                          resources = [''*'']\<rparr>],
                 environment = None\<rparr>\<rparr>,
           check_step_status =
             \<lparr>fn_scope = self, fn_id = ''StepFunctionLambdas_CheckStepStatus'',
              fn_values =
                \<lparr>fn_code = code, handler = ''check_step_status.handler'', runtime = PYTHON_3_7,
                 timeout = Some (Minutes 5),
                 initial_policy =
                   Some [\<lparr>effect = ALLOW,
                          actions = [''elasticmapreduce:DescribeCluster'',
                                     ''elasticmapreduce:DescribeStep'',
                                     ''cloudwatch:PutMetricData''],
                          resources = [''*'']\<rparr>],
                 environment = None\<rparr>\<rparr>\<rparr>)"

text \<open>The actions a function's initial policy allows, statement by statement.\<close>

definition allowed_actions :: "Function \<Rightarrow> string list list" where
  "allowed_actions f =
     (case initial_policy (fn_values f) of
        None \<Rightarrow> []
      | Some ps \<Rightarrow> map actions (filter (\<lambda>p. effect p = ALLOW) ps))"

subsection \<open>Python's \<open>str\<close> on the argument types\<close>

definition digit_char :: "nat \<Rightarrow> char" where
  "digit_char d = ''0123456789'' ! d"

fun str_nat :: "nat \<Rightarrow> string" where
  "str_nat n = (if n < 10 then [digit_char n] else str_nat (n div 10) @ [digit_char (n mod 10)])"

declare str_nat.simps [simp del]

definition str_int :: "int \<Rightarrow> string" where
  "str_int i = (if i < 0 then CHR ''-'' # str_nat (nat (- i)) else str_nat (nat i))"

fun str_opt_int :: "int option \<Rightarrow> string" where
  "str_opt_int None = ''None''"
| "str_opt_int (Some i) = str_int i"

fun str_opt_bool :: "bool option \<Rightarrow> string" where
  "str_opt_bool None = ''None''"
| "str_opt_bool (Some b) = (if b then ''True'' else ''False'')"

subsection \<open>Dictionaries of strings\<close>

text \<open>
  \<open>d[k] = v\<close> replaces the value of a key that is there and appends a new key: this is
  \<open>AList.update\<close>. \<open>dict(d, **kw)\<close> is a copy of \<open>d\<close> in which the items of \<open>kw\<close> are
  stored one after the other; \<open>d.get(k)\<close> is \<open>map_of d k\<close>.
\<close>

definition dict_with :: "(string \<times> 'v) list \<Rightarrow> (string \<times> 'v) list \<Rightarrow> (string \<times> 'v) list" where
  "dict_with d kw = fold (\<lambda>(k, v). AList.update k v) kw d"

subsection \<open>LaunchEMRConfigLambda\<close>

text \<open>
  The dictionary \<open>environment\<close> as it stands before it is merged into the props.
  \<open>json.dumps\<close> belongs to the standard library: it is a parameter.
\<close>

definition LaunchEMRConfigLambda_environment ::
  "(pyval \<Rightarrow> string) \<Rightarrow> StateMachine \<Rightarrow> pyval \<Rightarrow> int option kwarg \<Rightarrow> bool option kwarg
     \<Rightarrow> Topic option \<Rightarrow> Topic option \<Rightarrow> (string \<times> string) list" where
  "LaunchEMRConfigLambda_environment json_dumps step_function cluster_config
       step_function_wait_time fail_if_job_running success_topic failure_topic =
     (let env0 =
            [(''DEFAULT_STEP_FUNCTION_ARN'', state_machine_arn step_function),
             (''DEFAULT_CLUSTER_CONFIG'', json_dumps cluster_config),
             (''DEFAULT_STEP_FUNCTION_WAIT_TIME'',
                str_opt_int (kwarg_default (Some 60) step_function_wait_time)),
             (''DEFAULT_FAIL_IF_JOB_RUNNING'',
                str_opt_bool (kwarg_default (Some False) fail_if_job_running))];
          env1 = (case success_topic of
                    None \<Rightarrow> env0
                  | Some t \<Rightarrow> AList.update ''DEFAULT_SUCCESS_TOPIC_ARN'' (topic_arn t) env0);
          env2 = (case failure_topic of
                    None \<Rightarrow> env1
                  | Some t \<Rightarrow> AList.update ''DEFAULT_FAILURE_TOPIC_ARN'' (topic_arn t) env1)
      in env2)"

text \<open>
  A \<open>FunctionProps\<close> always carries its \<open>_values\<close>, so the default of the first
  \<open>get\<close> is never taken; the default of the second is the empty environment of props
  that have none. \<open>function_props\<close> is the \<open>_values\<close> dictionary of \<open>props\<close> itself, not a copy, so
  storing the merged environment in it changes the caller's props. The constructor is
  therefore given as the pair of the declared function and the props as the call leaves
  them.
\<close>

definition LaunchEMRConfigLambda_init ::
  "(pyval \<Rightarrow> string) \<Rightarrow> Construct \<Rightarrow> string \<Rightarrow> FunctionProps \<Rightarrow> StateMachine \<Rightarrow> pyval
     \<Rightarrow> int option kwarg \<Rightarrow> bool option kwarg \<Rightarrow> Topic option \<Rightarrow> Topic option
     \<Rightarrow> Function \<times> FunctionProps" where
  "LaunchEMRConfigLambda_init json_dumps scope ident props step_function cluster_config
       step_function_wait_time fail_if_job_running success_topic failure_topic =
     (let env = LaunchEMRConfigLambda_environment json_dumps step_function cluster_config
                  step_function_wait_time fail_if_job_running success_topic failure_topic;
          function_props =
            props\<lparr>environment :=
                    Some (dict_with (case environment props of None \<Rightarrow> [] | Some e \<Rightarrow> e) env)\<rparr>
      in (\<lparr>fn_scope = scope, fn_id = ident, fn_values = function_props\<rparr>, function_props))"

text \<open>The environment of a declared function; a function declared without one has none.\<close>

definition fn_environment :: "Function \<Rightarrow> (string \<times> string) list" where
  "fn_environment f = (case environment (fn_values f) of None \<Rightarrow> [] | Some e \<Rightarrow> e)"

text \<open>Reading an entry of a dictionary value.\<close>

fun dict_get :: "pyval \<Rightarrow> string \<Rightarrow> pyval option" where
  "dict_get (PDict items) k = map_of items k"
| "dict_get _ k = None"

section \<open>A sample client\<close>

text \<open>
  A client program for the concrete instances below: one \<open>EmrCode\<close>, at address 0,
  shared by a step, at address 1, and a bootstrap action, at address 2, and a second
  \<open>EmrCode\<close>, at address 3, for the same bucket. Neither code has an id of its own.
\<close>

definition sample_world :: world where
  "sample_world =
     (let (c, w1) = from_path ''./jars'' \<lparr>bucket_name = ''artifacts''\<rparr> ''emr/jars'' empty_world;
          (s, w2) = EmrStep_init ''wordcount'' ''command-runner.jar'' None
                      (Some [''spark-submit'', ''wordcount.py'']) Omitted None (Some c) w1;
          (a, w3) = EmrBootstrapAction_init ''install'' ''s3://artifacts/emr/install.sh''
                      None (Some c) w2;
          (c', w4) = from_path ''./scripts'' \<lparr>bucket_name = ''artifacts''\<rparr> ''emr/scripts'' w3
      in w4)"

definition sample_props :: FunctionProps where
  "sample_props =
     \<lparr>fn_code = CodeAsset ''lambda'', handler = ''index.handler'', runtime = PYTHON_3_7,
      timeout = None, initial_policy = None,
      environment = Some [(''STAGE'', ''prod''), (''DEFAULT_FAILURE_TOPIC_ARN'', ''arn:old'')]\<rparr>"

section \<open>Properties of emr\_code.py\<close>

subsection \<open>What one call changes\<close>

lemma bind_code_world:
  "snd (EmrCode_bind_scope fw a scope w) =
     (if unbound w a \<and> fw (tree w) (requested w a scope)
      then w\<lparr>code_store :=
               (code_store w)
                 (a := (code_store w a)\<lparr>bucket_deployment := Some (requested w a scope)\<rparr>),
             tree := tree w @ [requested w a scope]\<rparr>
      else w)"
  by (simp add: EmrCode_bind_scope_def Let_def unbound_def requested_def split: option.splits)

lemma bind_code_result:
  "fst (EmrCode_bind_scope fw a scope w) =
     (if binds fw w scope (Some a)
      then Inr (PDict [(''S3Path'', PStr (s3_path (code_store w a)))])
      else Inl FrameworkError)"
  by (simp add: EmrCode_bind_scope_def Let_def unbound_def requested_def binds_def s3_path_def
        split: option.splits)

lemma bind_code_tree:
  "tree (snd (EmrCode_bind_scope fw a scope w)) =
     (if unbound w a \<and> fw (tree w) (requested w a scope)
      then tree w @ [requested w a scope] else tree w)"
  by (simp add: bind_code_world)

lemma bind_code_unbound:
  "unbound (snd (EmrCode_bind_scope fw a scope w)) b =
     (unbound w b \<and> \<not> (b = a \<and> fw (tree w) (requested w a scope)))"
  by (auto simp add: bind_code_world unbound_def)

lemma bind_code_bound: "\<not> unbound w a \<Longrightarrow> snd (EmrCode_bind_scope fw a scope w) = w"
  by (simp add: bind_code_world)

lemma bind_code_stores:
  "action_store (snd (EmrCode_bind_scope fw a scope w)) = action_store w"
  "step_store (snd (EmrCode_bind_scope fw a scope w)) = step_store w"
  "next_addr (snd (EmrCode_bind_scope fw a scope w)) = next_addr w"
  by (simp_all add: bind_code_world)

lemma bind_code_fields:
  "deployment_props (code_store (snd (EmrCode_bind_scope fw a scope w)) b) =
     deployment_props (code_store w b)"
  "deployment_bucket (code_store (snd (EmrCode_bind_scope fw a scope w)) b) =
     deployment_bucket (code_store w b)"
  "deployment_prefix (code_store (snd (EmrCode_bind_scope fw a scope w)) b) =
     deployment_prefix (code_store w b)"
  "code_id (code_store (snd (EmrCode_bind_scope fw a scope w)) b) = code_id (code_store w b)"
  by (simp_all add: bind_code_world)

lemma bind_code_deployment_kept:
  "bucket_deployment (code_store w b) = Some d \<Longrightarrow>
   bucket_deployment (code_store (snd (EmrCode_bind_scope fw a scope w)) b) = Some d"
  by (auto simp add: bind_code_world unbound_def)

lemma bind_code_length:
  "length (tree (snd (EmrCode_bind_scope fw a scope w))) =
     length (tree w) +
     (if unbound w a \<and> \<not> unbound (snd (EmrCode_bind_scope fw a scope w)) a then 1 else 0)"
  by (simp add: bind_code_tree bind_code_unbound)

lemma bind_code_if_any_world:
  "snd (bind_code_if_any fw code scope w) =
     (case code of None \<Rightarrow> w | Some c \<Rightarrow> snd (EmrCode_bind_scope fw c scope w))"
  by (simp add: bind_code_if_any_def split: option.splits prod.splits sum.splits)

lemma bind_code_if_any_result:
  "fst (bind_code_if_any fw code scope w) =
     (if binds fw w scope code then Inr () else Inl FrameworkError)"
proof (cases code)
  case None
  then show ?thesis by (simp add: bind_code_if_any_def binds_def)
next
  case (Some c)
  obtain r w' where rw: "EmrCode_bind_scope fw c scope w = (r, w')"
    by (cases "EmrCode_bind_scope fw c scope w")
  have "r = (if binds fw w scope (Some c)
             then Inr (PDict [(''S3Path'', PStr (s3_path (code_store w c)))])
             else Inl FrameworkError)"
    using bind_code_result [of fw c scope w] by (simp add: rw)
  then show ?thesis
    by (simp add: bind_code_if_any_def Some rw)
qed

lemma action_bind_world:
  "snd (EmrBootstrapAction_bind_scope fw self scope w) =
     (case ba_code (action_store w self) of
        None \<Rightarrow> w
      | Some c \<Rightarrow> snd (EmrCode_bind_scope fw c scope w))"
proof -
  obtain r w' where rw:
    "bind_code_if_any fw (ba_code (action_store w self)) scope w = (r, w')"
    by (cases "bind_code_if_any fw (ba_code (action_store w self)) scope w")
  have "w' = (case ba_code (action_store w self) of
                None \<Rightarrow> w
              | Some c \<Rightarrow> snd (EmrCode_bind_scope fw c scope w))"
    using bind_code_if_any_world [of fw "ba_code (action_store w self)" scope w]
    by (simp add: rw)
  then show ?thesis
    by (simp add: EmrBootstrapAction_bind_scope_def rw Let_def split: sum.splits)
qed

lemma step_bind_world:
  "snd (EmrStep_bind_scope fw self scope w) =
     (case step_code (step_store w self) of
        None \<Rightarrow> w
      | Some c \<Rightarrow> snd (EmrCode_bind_scope fw c scope w))"
proof -
  obtain r w' where rw:
    "bind_code_if_any fw (step_code (step_store w self)) scope w = (r, w')"
    by (cases "bind_code_if_any fw (step_code (step_store w self)) scope w")
  have "w' = (case step_code (step_store w self) of
                None \<Rightarrow> w
              | Some c \<Rightarrow> snd (EmrCode_bind_scope fw c scope w))"
    using bind_code_if_any_world [of fw "step_code (step_store w self)" scope w]
    by (simp add: rw)
  then show ?thesis
    by (simp add: EmrStep_bind_scope_def rw Let_def split: sum.splits)
qed

lemma bind_code_if_any_stores:
  "action_store (snd (bind_code_if_any fw code scope w)) = action_store w"
  "step_store (snd (bind_code_if_any fw code scope w)) = step_store w"
  by (simp_all add: bind_code_if_any_world bind_code_stores split: option.splits)

lemma action_bind_result:
  "fst (EmrBootstrapAction_bind_scope fw self scope w) =
     (if binds fw w scope (ba_code (action_store w self))
      then Inr (PDict [(''Name'', PStr (ba_name (action_store w self))),
                       (''ScriptBootstrapAction'',
                          PDict [(''Path'', PStr (ba_path (action_store w self))),
                                 (''Args'',
                                    PList (map PStr
                                             (list_or_empty (ba_args (action_store w self)))))])])
      else Inl FrameworkError)"
proof -
  obtain r w' where rw:
    "bind_code_if_any fw (ba_code (action_store w self)) scope w = (r, w')"
    by (cases "bind_code_if_any fw (ba_code (action_store w self)) scope w")
  have r: "r = (if binds fw w scope (ba_code (action_store w self))
                then Inr () else Inl FrameworkError)"
    using bind_code_if_any_result [of fw "ba_code (action_store w self)" scope w]
    by (simp add: rw)
  have "action_store w' = action_store w"
    using bind_code_if_any_stores(1) [of fw "ba_code (action_store w self)" scope w]
    by (simp add: rw)
  then show ?thesis
    by (simp add: EmrBootstrapAction_bind_scope_def rw r Let_def)
qed

lemma step_bind_result:
  "fst (EmrStep_bind_scope fw self scope w) =
     (if binds fw w scope (step_code (step_store w self))
      then Inr (PDict [(''Name'', PStr (step_name (step_store w self))),
                       (''ActionOnFailure'',
                          PStr (StepFailureAction_name
                                  (step_action_on_failure (step_store w self)))),
                       (''HadoopJarStep'',
                          PDict [(''Jar'', PStr (step_jar (step_store w self))),
                                 (''MainClass'', opt_str (step_main_class (step_store w self))),
                                 (''Args'',
                                    PList (map PStr
                                             (list_or_empty (step_args (step_store w self))))),
                                 (''Properties'',
                                    PList (list_or_empty
                                             (step_properties (step_store w self))))])])
      else Inl FrameworkError)"
proof -
  obtain r w' where rw:
    "bind_code_if_any fw (step_code (step_store w self)) scope w = (r, w')"
    by (cases "bind_code_if_any fw (step_code (step_store w self)) scope w")
  have r: "r = (if binds fw w scope (step_code (step_store w self))
                then Inr () else Inl FrameworkError)"
    using bind_code_if_any_result [of fw "step_code (step_store w self)" scope w]
    by (simp add: rw)
  have "step_store w' = step_store w"
    using bind_code_if_any_stores(2) [of fw "step_code (step_store w self)" scope w]
    by (simp add: rw)
  then show ?thesis
    by (simp add: EmrStep_bind_scope_def rw r Let_def)
qed

subsection \<open>What a list of calls changes\<close>

lemma bind_call_None: "bound_code w c = None \<Longrightarrow> bind_call fw c w = w"
  by (cases c) (simp_all add: action_bind_world step_bind_world)

lemma bind_call_Some:
  "bound_code w c = Some a \<Longrightarrow> \<exists>scope. bind_call fw c w = snd (EmrCode_bind_scope fw a scope w)"
  by (cases c) (auto simp add: action_bind_world step_bind_world)

lemma bind_call_stores:
  "action_store (bind_call fw c w) = action_store w"
  "step_store (bind_call fw c w) = step_store w"
  "next_addr (bind_call fw c w) = next_addr w"
  by (cases c; simp add: action_bind_world step_bind_world bind_code_stores
        split: option.splits)+

lemma bound_code_bind_call: "bound_code (bind_call fw c w) c' = bound_code w c'"
  by (cases c') (simp_all add: bind_call_stores)

lemma bind_calls_stores:
  "action_store (bind_calls fw cs w) = action_store w \<and>
   step_store (bind_calls fw cs w) = step_store w \<and>
   next_addr (bind_calls fw cs w) = next_addr w"
  by (induction cs arbitrary: w) (simp_all add: bind_call_stores)

lemma targets_bind_call:
  "List.map_filter (bound_code (bind_call fw c w)) cs = List.map_filter (bound_code w) cs"
  by (simp add: List.map_filter_def bound_code_bind_call cong: map_cong filter_cong)

lemma bind_call_deployment_kept:
  "bucket_deployment (code_store w b) = Some d \<Longrightarrow>
   bucket_deployment (code_store (bind_call fw c w) b) = Some d"
  by (cases c)
     (simp_all add: action_bind_world step_bind_world bind_code_deployment_kept
        split: option.splits)

lemma bind_calls_deployment_kept:
  "bucket_deployment (code_store w b) = Some d \<Longrightarrow>
   bucket_deployment (code_store (bind_calls fw cs w) b) = Some d"
  by (induction cs arbitrary: w) (simp_all add: bind_call_deployment_kept)

lemma bind_calls_bound: "\<not> unbound w a \<Longrightarrow> \<not> unbound (bind_calls fw cs w) a"
  using bind_calls_deployment_kept [of w a _ fw cs] by (auto simp add: unbound_def)

lemma bind_call_fields:
  "deployment_props (code_store (bind_call fw c w) b) = deployment_props (code_store w b)"
  "deployment_bucket (code_store (bind_call fw c w) b) = deployment_bucket (code_store w b)"
  "deployment_prefix (code_store (bind_call fw c w) b) = deployment_prefix (code_store w b)"
  "code_id (code_store (bind_call fw c w) b) = code_id (code_store w b)"
  by (cases c; simp add: action_bind_world step_bind_world bind_code_fields
        split: option.splits)+

lemma bind_calls_fields:
  "deployment_props (code_store (bind_calls fw cs w) b) = deployment_props (code_store w b) \<and>
   deployment_bucket (code_store (bind_calls fw cs w) b) = deployment_bucket (code_store w b) \<and>
   deployment_prefix (code_store (bind_calls fw cs w) b) = deployment_prefix (code_store w b) \<and>
   code_id (code_store (bind_calls fw cs w) b) = code_id (code_store w b)"
  by (induction cs arbitrary: w) (simp_all add: bind_call_fields)

lemma bind_calls_s3_path:
  "s3_path (code_store (bind_calls fw cs w) b) = s3_path (code_store w b)"
  by (simp add: s3_path_def bind_calls_fields)

lemma bind_code_s3_path:
  "s3_path (code_store (snd (EmrCode_bind_scope fw a scope w)) b) = s3_path (code_store w b)"
  by (simp add: s3_path_def bind_code_fields)

lemma became_bound_reached:
  "unbound w b \<Longrightarrow> \<not> unbound (bind_calls fw cs w) b \<Longrightarrow>
   b \<in> set (List.map_filter (bound_code w) cs)"
proof (induction cs arbitrary: w)
  case Nil
  then show ?case by simp
next
  case (Cons c cs)
  show ?case
  proof (cases "unbound (bind_call fw c w) b")
    case True
    then have "b \<in> set (List.map_filter (bound_code (bind_call fw c w)) cs)"
      using Cons.prems(2) by (intro Cons.IH) simp_all
    then show ?thesis
      by (simp add: targets_bind_call List.map_filter_simps split: option.splits)
  next
    case False
    then have changed: "bind_call fw c w \<noteq> w"
      using Cons.prems(1) by auto
    then obtain a where a: "bound_code w c = Some a"
      using bind_call_None [of w c fw] by (cases "bound_code w c") auto
    then obtain scope where "bind_call fw c w = snd (EmrCode_bind_scope fw a scope w)"
      using bind_call_Some by blast
    then have "b = a"
      using False Cons.prems(1) by (simp add: bind_code_unbound)
    then show ?thesis
      using a by (simp add: List.map_filter_simps)
  qed
qed

lemma became_bound_finite: "finite {a. unbound w a \<and> \<not> unbound (bind_calls fw cs w) a}"
proof (rule finite_subset)
  show "{a. unbound w a \<and> \<not> unbound (bind_calls fw cs w) a} \<subseteq>
        set (List.map_filter (bound_code w) cs)"
    using became_bound_reached by blast
qed simp

lemma bind_calls_count:
  "length (tree (bind_calls fw cs w)) =
     length (tree w) + card {a. unbound w a \<and> \<not> unbound (bind_calls fw cs w) a}"
proof (induction cs arbitrary: w)
  case Nil
  show ?case by simp
next
  case (Cons c cs)
  let ?w1 = "bind_call fw c w"
  let ?w' = "bind_calls fw cs ?w1"
  have IH: "length (tree ?w') =
      length (tree ?w1) + card {a. unbound ?w1 a \<and> \<not> unbound ?w' a}"
    by (rule Cons.IH)
  show ?case
  proof (cases "?w1 = w")
    case True
    then show ?thesis using IH by simp
  next
    case False
    then obtain a where a: "bound_code w c = Some a"
      using bind_call_None [of w c fw] by (cases "bound_code w c") auto
    then obtain scope where w1: "?w1 = snd (EmrCode_bind_scope fw a scope w)"
      using bind_call_Some by blast
    have acc: "unbound w a \<and> fw (tree w) (requested w a scope)"
      using False w1 by (simp add: bind_code_world split: if_splits)
    have U: "\<And>b. unbound ?w1 b = (unbound w b \<and> b \<noteq> a)"
      using acc by (auto simp add: w1 bind_code_unbound)
    have L: "length (tree ?w1) = Suc (length (tree w))"
      using acc by (simp add: w1 bind_code_tree)
    have "\<not> unbound ?w1 a" by (simp add: U)
    then have kept: "\<not> unbound ?w' a" by (rule bind_calls_bound)
    have S: "{b. unbound w b \<and> \<not> unbound ?w' b} =
             insert a {b. unbound ?w1 b \<and> \<not> unbound ?w' b}"
      using acc kept by (auto simp add: U)
    have "a \<notin> {b. unbound ?w1 b \<and> \<not> unbound ?w' b}" by (simp add: U)
    then have "card {b. unbound w b \<and> \<not> unbound ?w' b} =
               Suc (card {b. unbound ?w1 b \<and> \<not> unbound ?w' b})"
      unfolding S using became_bound_finite [of ?w1 fw cs] by simp
    then show ?thesis using IH L by simp
  qed
qed

lemma became_bound_list:
  "{a. unbound w a \<and> \<not> unbound (bind_calls fw cs w) a} =
   set (filter (\<lambda>a. \<not> unbound (bind_calls fw cs w) a) (first_bound w cs))"
  using became_bound_reached [of w _ fw cs] by (auto simp add: first_bound_def)

lemma bind_calls_first_bound:
  "length (tree (bind_calls fw cs w)) =
     length (tree w) +
     length (filter (\<lambda>a. \<not> unbound (bind_calls fw cs w) a) (first_bound w cs))"
proof -
  have "distinct (filter (\<lambda>a. \<not> unbound (bind_calls fw cs w) a) (first_bound w cs))"
    by (simp add: first_bound_def)
  then have "card {a. unbound w a \<and> \<not> unbound (bind_calls fw cs w) a} =
      length (filter (\<lambda>a. \<not> unbound (bind_calls fw cs w) a) (first_bound w cs))"
    unfolding became_bound_list by (rule distinct_card)
  then show ?thesis by (simp add: bind_calls_count)
qed

subsection \<open>The sample client\<close>

lemma sample_world_tree: "tree sample_world = []"
  by (simp add: sample_world_def from_path_def EmrCode_init_def EmrStep_init_def
        EmrBootstrapAction_init_def empty_world_def Let_def)

lemma sample_world_code_0:
  "code_store sample_world 0 =
     \<lparr>deployment_props = \<lparr>sources = [Asset ''./jars''],
                            destination_bucket = \<lparr>bucket_name = ''artifacts''\<rparr>,
                            destination_key_prefix = Some ''emr/jars''\<rparr>,
      deployment_bucket = \<lparr>bucket_name = ''artifacts''\<rparr>,
      deployment_prefix = Some ''emr/jars'',
      code_id = None,
      bucket_deployment = None\<rparr>"
  by (simp add: sample_world_def from_path_def EmrCode_init_def EmrStep_init_def
        EmrBootstrapAction_init_def empty_world_def Let_def)

lemma sample_world_code_3:
  "code_store sample_world 3 =
     \<lparr>deployment_props = \<lparr>sources = [Asset ''./scripts''],
                            destination_bucket = \<lparr>bucket_name = ''artifacts''\<rparr>,
                            destination_key_prefix = Some ''emr/scripts''\<rparr>,
      deployment_bucket = \<lparr>bucket_name = ''artifacts''\<rparr>,
      deployment_prefix = Some ''emr/scripts'',
      code_id = None,
      bucket_deployment = None\<rparr>"
  by (simp add: sample_world_def from_path_def EmrCode_init_def EmrStep_init_def
        EmrBootstrapAction_init_def empty_world_def Let_def)

lemma sample_world_step:
  "step_store sample_world (Suc 0) =
     \<lparr>step_name = ''wordcount'', step_jar = ''command-runner.jar'', step_main_class = None,
      step_args = Some [''spark-submit'', ''wordcount.py''],
      step_action_on_failure = CONTINUE, step_properties = None, step_code = Some 0\<rparr>"
  by (simp add: sample_world_def from_path_def EmrCode_init_def EmrStep_init_def
        EmrBootstrapAction_init_def empty_world_def Let_def)

lemma sample_world_action:
  "action_store sample_world 2 =
     \<lparr>ba_name = ''install'', ba_path = ''s3://artifacts/emr/install.sh'', ba_args = None,
      ba_code = Some 0\<rparr>"
  by (simp add: sample_world_def from_path_def EmrCode_init_def EmrStep_init_def
        EmrBootstrapAction_init_def empty_world_def Let_def)

text \<open>
  The sample run: the shared code is bound through the step under \<open>stack\<close>; the second
  code is then refused under \<open>stack\<close>, where its id is taken; the shared code is bound
  again through the bootstrap action and directly under \<open>other\<close>.
\<close>

lemma sample_first_call:
  "tree (snd (EmrCode_bind_scope no_duplicate_id 0 ''stack'' sample_world)) =
     [\<lparr>bd_scope = ''stack'', bd_id = ''BucketDeployment'',
       bd_values = \<lparr>sources = [Asset ''./jars''],
                    destination_bucket = \<lparr>bucket_name = ''artifacts''\<rparr>,
                    destination_key_prefix = Some ''emr/jars''\<rparr>\<rparr>]"
  "\<not> unbound (snd (EmrCode_bind_scope no_duplicate_id 0 ''stack'' sample_world)) 0"
  "code_store (snd (EmrCode_bind_scope no_duplicate_id 0 ''stack'' sample_world)) 3 =
     code_store sample_world 3"
  by (simp_all add: bind_code_world unbound_def requested_def deployment_id_def
        no_duplicate_id_def sample_world_tree sample_world_code_0)

lemma sample_refused:
  "snd (EmrCode_bind_scope no_duplicate_id 3 ''stack''
          (snd (EmrCode_bind_scope no_duplicate_id 0 ''stack'' sample_world))) =
   snd (EmrCode_bind_scope no_duplicate_id 0 ''stack'' sample_world)"
  by (simp add: bind_code_world [of no_duplicate_id 3] requested_def deployment_id_def
        no_duplicate_id_def sample_first_call sample_world_code_3)

lemma sample_run:
  "bind_calls no_duplicate_id
     [BindStep 1 ''stack'', BindCode 3 ''stack'', BindAction 2 ''stack'', BindCode 0 ''other'']
     sample_world =
   snd (EmrCode_bind_scope no_duplicate_id 0 ''stack'' sample_world)"
  by (simp add: step_bind_world action_bind_world sample_world_step sample_world_action
        bind_code_stores sample_refused bind_code_bound sample_first_call)

subsection \<open>The deployment of an EmrCode\<close>

text \<open>
  C1. The deployment resource of an \<open>EmrCode\<close> is declared at most once, whatever the
  framework accepts. The constructor declares nothing and leaves the new object unbound.
  A call of \<open>bind_scope\<close> on an unbound object declares exactly one resource, under the
  scope of that call, and binds the object, if the framework accepts the declaration; if
  the framework refuses, the call raises, nothing is declared and the object stays
  unbound. A call on a bound object declares nothing. A bound object stays bound
  whatever is bound afterwards, and every further call of its \<open>bind_scope\<close>, with any
  scope, returns and leaves the whole world as it is. Counted over any list of calls, the
  resources declared are as many as the objects that the list has bound, which are among
  the distinct unbound \<open>EmrCode\<close> objects the calls reach.
\<close>

theorem EmrCode_deployment_at_most_once:
  "tree (snd (EmrCode_init props ident w)) = tree w \<and>
   unbound (snd (EmrCode_init props ident w)) (fst (EmrCode_init props ident w)) \<and>
   tree (snd (EmrCode_bind_scope fw a scope w)) =
     (if unbound w a \<and>
         fw (tree w) \<lparr>bd_scope = scope, bd_id = deployment_id (code_store w a),
                      bd_values = deployment_props (code_store w a)\<rparr>
      then tree w @ [\<lparr>bd_scope = scope, bd_id = deployment_id (code_store w a),
                      bd_values = deployment_props (code_store w a)\<rparr>]
      else tree w) \<and>
   unbound (snd (EmrCode_bind_scope fw a scope w)) a =
     (unbound w a \<and>
      \<not> fw (tree w) \<lparr>bd_scope = scope, bd_id = deployment_id (code_store w a),
                      bd_values = deployment_props (code_store w a)\<rparr>) \<and>
   isl (fst (EmrCode_bind_scope fw a scope w)) =
     (unbound w a \<and>
      \<not> fw (tree w) \<lparr>bd_scope = scope, bd_id = deployment_id (code_store w a),
                      bd_values = deployment_props (code_store w a)\<rparr>) \<and>
   (\<not> unbound w a \<longrightarrow>
      \<not> unbound (bind_calls fw cs w) a \<and>
      snd (EmrCode_bind_scope fw a scope (bind_calls fw cs w)) = bind_calls fw cs w \<and>
      \<not> isl (fst (EmrCode_bind_scope fw a scope (bind_calls fw cs w)))) \<and>
   length (tree (bind_calls fw cs w)) =
     length (tree w) +
     length (filter (\<lambda>b. \<not> unbound (bind_calls fw cs w) b) (first_bound w cs)) \<and>
   length (tree (bind_calls fw cs w)) \<le> length (tree w) + length (first_bound w cs)"
proof -
  have init: "tree (snd (EmrCode_init props ident w)) = tree w \<and>
      unbound (snd (EmrCode_init props ident w)) (fst (EmrCode_init props ident w))"
    by (simp add: EmrCode_init_def Let_def unbound_def)
  have one: "tree (snd (EmrCode_bind_scope fw a scope w)) =
     (if unbound w a \<and>
         fw (tree w) \<lparr>bd_scope = scope, bd_id = deployment_id (code_store w a),
                      bd_values = deployment_props (code_store w a)\<rparr>
      then tree w @ [\<lparr>bd_scope = scope, bd_id = deployment_id (code_store w a),
                      bd_values = deployment_props (code_store w a)\<rparr>]
      else tree w)"
    using bind_code_tree [of fw a scope w] by (simp add: requested_def)
  have after: "unbound (snd (EmrCode_bind_scope fw a scope w)) a =
     (unbound w a \<and>
      \<not> fw (tree w) \<lparr>bd_scope = scope, bd_id = deployment_id (code_store w a),
                      bd_values = deployment_props (code_store w a)\<rparr>)"
    by (simp add: bind_code_unbound requested_def)
  have raises: "isl (fst (EmrCode_bind_scope fw a scope w)) =
     (unbound w a \<and>
      \<not> fw (tree w) \<lparr>bd_scope = scope, bd_id = deployment_id (code_store w a),
                      bd_values = deployment_props (code_store w a)\<rparr>)"
    by (simp add: bind_code_result binds_def requested_def)
  have later: "\<not> unbound w a \<longrightarrow>
      \<not> unbound (bind_calls fw cs w) a \<and>
      snd (EmrCode_bind_scope fw a scope (bind_calls fw cs w)) = bind_calls fw cs w \<and>
      \<not> isl (fst (EmrCode_bind_scope fw a scope (bind_calls fw cs w)))"
  proof
    assume "\<not> unbound w a"
    then have b: "\<not> unbound (bind_calls fw cs w) a"
      by (rule bind_calls_bound)
    then show "\<not> unbound (bind_calls fw cs w) a \<and>
      snd (EmrCode_bind_scope fw a scope (bind_calls fw cs w)) = bind_calls fw cs w \<and>
      \<not> isl (fst (EmrCode_bind_scope fw a scope (bind_calls fw cs w)))"
      by (simp add: bind_code_bound bind_code_result binds_def)
  qed
  have count: "length (tree (bind_calls fw cs w)) =
     length (tree w) +
     length (filter (\<lambda>b. \<not> unbound (bind_calls fw cs w) b) (first_bound w cs))"
    by (rule bind_calls_first_bound)
  have "length (filter (\<lambda>b. \<not> unbound (bind_calls fw cs w) b) (first_bound w cs)) \<le>
        length (first_bound w cs)"
    by (rule length_filter_le)
  then have most: "length (tree (bind_calls fw cs w)) \<le>
      length (tree w) + length (first_bound w cs)"
    using count by simp
  show ?thesis
    using init one after raises later count most by blast
qed

text \<open>
  In the sample client, under the framework's rule on ids: the shared code is bound
  through the step, through the bootstrap action and directly, under two scopes, and the
  second code is refused where its id is taken. One resource is declared, under the
  scope of the first call; the shared code is bound and a further call changes nothing;
  the refused code is still unbound.
\<close>

theorem EmrCode_deployment_at_most_once_witness:
  "tree sample_world = [] \<and>
   \<not> unbound (snd (EmrCode_bind_scope no_duplicate_id 0 ''stack'' sample_world)) 0 \<and>
   snd (EmrCode_bind_scope no_duplicate_id 0 ''other''
          (bind_calls no_duplicate_id [BindCode 3 ''stack'', BindAction 2 ''stack'']
             (snd (EmrCode_bind_scope no_duplicate_id 0 ''stack'' sample_world)))) =
     bind_calls no_duplicate_id [BindCode 3 ''stack'', BindAction 2 ''stack'']
       (snd (EmrCode_bind_scope no_duplicate_id 0 ''stack'' sample_world)) \<and>
   tree (bind_calls no_duplicate_id
           [BindStep 1 ''stack'', BindCode 3 ''stack'', BindAction 2 ''stack'',
            BindCode 0 ''other''] sample_world) =
     [\<lparr>bd_scope = ''stack'', bd_id = ''BucketDeployment'',
       bd_values = \<lparr>sources = [Asset ''./jars''],
                    destination_bucket = \<lparr>bucket_name = ''artifacts''\<rparr>,
                    destination_key_prefix = Some ''emr/jars''\<rparr>\<rparr>] \<and>
   unbound (bind_calls no_duplicate_id
              [BindStep 1 ''stack'', BindCode 3 ''stack'', BindAction 2 ''stack'',
               BindCode 0 ''other''] sample_world) 3 \<and>
   length (tree (bind_calls no_duplicate_id
                   [BindStep 1 ''stack'', BindCode 3 ''stack'', BindAction 2 ''stack'',
                    BindCode 0 ''other''] sample_world)) \<le> 2"
proof -
  let ?w1 = "snd (EmrCode_bind_scope no_duplicate_id 0 ''stack'' sample_world)"
  let ?cs = "[BindStep 1 ''stack'', BindCode 3 ''stack'', BindAction 2 ''stack'',
              BindCode 0 ''other'']"
  have bound: "\<not> unbound ?w1 0"
    by (rule sample_first_call)
  have again: "snd (EmrCode_bind_scope no_duplicate_id 0 ''other''
          (bind_calls no_duplicate_id [BindCode 3 ''stack'', BindAction 2 ''stack''] ?w1)) =
     bind_calls no_duplicate_id [BindCode 3 ''stack'', BindAction 2 ''stack''] ?w1"
    using bound
      EmrCode_deployment_at_most_once
        [of "deployment_props (code_store sample_world 0)" None ?w1 no_duplicate_id 0
            "''other''" "[BindCode 3 ''stack'', BindAction 2 ''stack'']"]
    by blast
  have fb: "first_bound sample_world ?cs = [3, 0]"
    by (simp add: first_bound_def List.map_filter_simps unbound_def sample_world_step
          sample_world_action sample_world_code_0 sample_world_code_3)
  have most: "length (tree (bind_calls no_duplicate_id ?cs sample_world)) \<le>
      length (tree sample_world) + length (first_bound sample_world ?cs)"
    using EmrCode_deployment_at_most_once
        [of "deployment_props (code_store sample_world 0)" None sample_world no_duplicate_id 0
            "''stack''" ?cs]
    by blast
  have three: "unbound (bind_calls no_duplicate_id ?cs sample_world) 3"
    unfolding sample_run by (simp add: unbound_def sample_first_call sample_world_code_3)
  have declared: "tree (bind_calls no_duplicate_id ?cs sample_world) =
     [\<lparr>bd_scope = ''stack'', bd_id = ''BucketDeployment'',
       bd_values = \<lparr>sources = [Asset ''./jars''],
                    destination_bucket = \<lparr>bucket_name = ''artifacts''\<rparr>,
                    destination_key_prefix = Some ''emr/jars''\<rparr>\<rparr>]"
    unfolding sample_run by (rule sample_first_call)
  have two: "length (tree (bind_calls no_duplicate_id ?cs sample_world)) \<le> 2"
    using most by (simp only: fb sample_world_tree) simp
  show ?thesis
    using sample_world_tree bound again declared three two by blast
qed

text \<open>
  What \<open>s3_path\<close> is for every \<open>EmrCode\<close>, at any later time: the name of the props'
  destination bucket and the props' key prefix as the f-string formats it.
\<close>

lemma EmrCode_s3_path_formatted:
  "s3_path (code_store (bind_calls fw cs (snd (EmrCode_init props ident w)))
                       (fst (EmrCode_init props ident w))) =
     ''s3://'' @ bucket_name (destination_bucket props) @ ''/'' @
     (case destination_key_prefix props of None \<Rightarrow> ''None'' | Some p \<Rightarrow> p)"
  by (simp add: bind_calls_s3_path)
     (simp add: EmrCode_init_def Let_def s3_path_def split: option.splits)

text \<open>
  C6. For an \<open>EmrCode\<close> made by \<open>Code.from_props\<close> from props for the bucket \<open>artifacts\<close>
  that carry no key prefix, \<open>s3_path\<close> and the \<open>S3Path\<close> entry returned by \<open>bind_scope\<close>
  are \<open>s3://artifacts/None\<close>: the text \<open>None\<close> stands in the place of the key
  prefix, which these props do not have, while the deployment goes to the root of the
  bucket.
\<close>

theorem EmrCode_s3_path_without_prefix:
  "s3_path
     (code_store
        (snd (from_props \<lparr>sources = [Asset ''./jars''],
                          destination_bucket = \<lparr>bucket_name = ''artifacts''\<rparr>,
                          destination_key_prefix = None\<rparr> empty_world))
        (fst (from_props \<lparr>sources = [Asset ''./jars''],
                          destination_bucket = \<lparr>bucket_name = ''artifacts''\<rparr>,
                          destination_key_prefix = None\<rparr> empty_world))) =
     ''s3://artifacts/None'' \<and>
   fst (EmrCode_bind_scope no_duplicate_id
          (fst (from_props \<lparr>sources = [Asset ''./jars''],
                            destination_bucket = \<lparr>bucket_name = ''artifacts''\<rparr>,
                            destination_key_prefix = None\<rparr> empty_world))
          ''stack''
          (snd (from_props \<lparr>sources = [Asset ''./jars''],
                            destination_bucket = \<lparr>bucket_name = ''artifacts''\<rparr>,
                            destination_key_prefix = None\<rparr> empty_world))) =
     Inr (PDict [(''S3Path'', PStr ''s3://artifacts/None'')])"
  by (simp add: bind_code_result binds_def requested_def no_duplicate_id_def)
     (simp add: from_props_def EmrCode_init_def Let_def s3_path_def empty_world_def)

text \<open>
  C8. Every call of \<open>EmrCode.bind_scope\<close> that returns, returns the one-entry mapping
  from \<open>S3Path\<close> to the object's \<open>s3_path\<close>, whatever the scope and whatever calls came
  before; it returns unless the object is unbound and the framework refuses the
  declaration. Neither one call nor a list of calls changes the \<open>s3_path\<close> of any object.
\<close>

theorem EmrCode_bind_scope_idempotent:
  "fst (EmrCode_bind_scope fw a scope (bind_calls fw cs w)) =
     (if binds fw (bind_calls fw cs w) scope (Some a)
      then Inr (PDict [(''S3Path'', PStr (s3_path (code_store w a)))])
      else Inl FrameworkError) \<and>
   s3_path (code_store (snd (EmrCode_bind_scope fw a scope w)) b) = s3_path (code_store w b) \<and>
   s3_path (code_store (bind_calls fw cs w) b) = s3_path (code_store w b)"
  by (simp add: bind_code_result bind_calls_s3_path bind_code_s3_path)

theorem EmrCode_bind_scope_idempotent_witness:
  "fst (EmrCode_bind_scope no_duplicate_id 0 ''other''
          (bind_calls no_duplicate_id
             [BindStep 1 ''stack'', BindCode 3 ''stack'', BindAction 2 ''stack'',
              BindCode 0 ''other''] sample_world)) =
     Inr (PDict [(''S3Path'', PStr ''s3://artifacts/emr/jars'')]) \<and>
   fst (EmrCode_bind_scope no_duplicate_id 3 ''stack''
          (bind_calls no_duplicate_id
             [BindStep 1 ''stack'', BindCode 3 ''stack'', BindAction 2 ''stack'',
              BindCode 0 ''other''] sample_world)) = Inl FrameworkError"
proof -
  let ?cs = "[BindStep 1 ''stack'', BindCode 3 ''stack'', BindAction 2 ''stack'',
              BindCode 0 ''other'']"
  have returns: "binds no_duplicate_id (bind_calls no_duplicate_id ?cs sample_world)
                   ''other'' (Some 0)"
    unfolding sample_run by (simp add: binds_def sample_first_call)
  have refused: "\<not> binds no_duplicate_id (bind_calls no_duplicate_id ?cs sample_world)
                     ''stack'' (Some 3)"
    unfolding sample_run
    by (simp add: binds_def unbound_def requested_def deployment_id_def no_duplicate_id_def
          sample_first_call sample_world_code_3)
  have path: "s3_path (code_store sample_world 0) = ''s3://artifacts/emr/jars''"
    by (simp add: s3_path_def sample_world_code_0)
  from EmrCode_bind_scope_idempotent [of no_duplicate_id 0 "''other''" ?cs sample_world]
  have one: "fst (EmrCode_bind_scope no_duplicate_id 0 ''other''
                    (bind_calls no_duplicate_id ?cs sample_world)) =
     Inr (PDict [(''S3Path'', PStr ''s3://artifacts/emr/jars'')])"
    by (simp only: returns path if_True)
  from EmrCode_bind_scope_idempotent [of no_duplicate_id 3 "''stack''" ?cs sample_world]
  have two: "fst (EmrCode_bind_scope no_duplicate_id 3 ''stack''
                    (bind_calls no_duplicate_id ?cs sample_world)) = Inl FrameworkError"
    by (simp only: refused if_False)
  show ?thesis
    using one two by (rule conjI)
qed

subsection \<open>Bootstrap actions and steps\<close>

lemma list_or_empty_eq: "list_or_empty xs = (case xs of None \<Rightarrow> [] | Some ys \<Rightarrow> ys)"
  by (cases xs) simp_all

lemma StepFailureAction_name_value: "StepFailureAction_name m = StepFailureAction_value m"
  by (cases m) simp_all

lemma step_init_store:
  "step_store (snd (EmrStep_init name jar main_class args aof properties code w))
     (fst (EmrStep_init name jar main_class args aof properties code w)) =
   \<lparr>step_name = name, step_jar = jar, step_main_class = main_class, step_args = args,
    step_action_on_failure = kwarg_default CONTINUE aof, step_properties = properties,
    step_code = code\<rparr>"
  by (simp add: EmrStep_init_def Let_def)

lemma action_init_store:
  "action_store (snd (EmrBootstrapAction_init name path args code w))
     (fst (EmrBootstrapAction_init name path args code w)) =
   \<lparr>ba_name = name, ba_path = path, ba_args = args, ba_code = code\<rparr>"
  by (simp add: EmrBootstrapAction_init_def Let_def)

text \<open>
  C4. A step made by the constructor returns from \<open>bind_scope\<close>, at any later time and
  for any scope, the mapping with \<open>Name\<close>, \<open>ActionOnFailure\<close> (the string of the enum
  member passed, \<open>CONTINUE\<close> when none was) and \<open>HadoopJarStep\<close>, the latter with \<open>Jar\<close>,
  \<open>MainClass\<close> (the main class, \<open>None\<close> when none was given), \<open>Args\<close> and \<open>Properties\<close>;
  \<open>Args\<close> and \<open>Properties\<close> are the constructor's lists, and the empty list where the
  argument was left out or \<open>None\<close>. When a code was given, the world the call leaves
  behind is the one the code's \<open>bind_scope\<close> leaves behind, so the code is bound by the
  time the mapping is returned; when the code's \<open>bind_scope\<close> raises, so does the call,
  and no mapping is returned. With no code nothing changes.
\<close>

theorem EmrStep_bind_scope_mapping:
  "fst (EmrStep_bind_scope fw
          (fst (EmrStep_init name jar main_class args aof properties code w)) scope
          (bind_calls fw cs
             (snd (EmrStep_init name jar main_class args aof properties code w)))) =
     (if binds fw
           (bind_calls fw cs
              (snd (EmrStep_init name jar main_class args aof properties code w)))
           scope code
      then Inr (PDict
             [(''Name'', PStr name),
              (''ActionOnFailure'',
                 PStr (case aof of
                         Omitted \<Rightarrow> ''CONTINUE''
                       | Passed TERMINATE_JOB_FLOW \<Rightarrow> ''TERMINATE_JOB_FLOW''
                       | Passed TERMINATE_CLUSTER \<Rightarrow> ''TERMINATE_CLUSTER''
                       | Passed CANCEL_AND_WAIT \<Rightarrow> ''CANCEL_AND_WAIT''
                       | Passed CONTINUE \<Rightarrow> ''CONTINUE'')),
              (''HadoopJarStep'',
                 PDict [(''Jar'', PStr jar),
                        (''MainClass'',
                           (case main_class of None \<Rightarrow> PNone | Some mc \<Rightarrow> PStr mc)),
                        (''Args'',
                           PList (map PStr (case args of None \<Rightarrow> [] | Some xs \<Rightarrow> xs))),
                        (''Properties'',
                           PList (case properties of None \<Rightarrow> [] | Some ps \<Rightarrow> ps))])])
      else Inl FrameworkError) \<and>
   snd (EmrStep_bind_scope fw
          (fst (EmrStep_init name jar main_class args aof properties code w)) scope
          (bind_calls fw cs
             (snd (EmrStep_init name jar main_class args aof properties code w)))) =
     (case code of
        None \<Rightarrow>
          bind_calls fw cs (snd (EmrStep_init name jar main_class args aof properties code w))
      | Some c \<Rightarrow>
          snd (EmrCode_bind_scope fw c scope
                 (bind_calls fw cs
                    (snd (EmrStep_init name jar main_class args aof properties code w)))))"
proof -
  have name: "StepFailureAction_name (kwarg_default CONTINUE aof) =
      (case aof of
         Omitted \<Rightarrow> ''CONTINUE''
       | Passed TERMINATE_JOB_FLOW \<Rightarrow> ''TERMINATE_JOB_FLOW''
       | Passed TERMINATE_CLUSTER \<Rightarrow> ''TERMINATE_CLUSTER''
       | Passed CANCEL_AND_WAIT \<Rightarrow> ''CANCEL_AND_WAIT''
       | Passed CONTINUE \<Rightarrow> ''CONTINUE'')"
    by (simp split: kwarg.splits StepFailureAction.splits)
  have main: "opt_str main_class = (case main_class of None \<Rightarrow> PNone | Some mc \<Rightarrow> PStr mc)"
    by (cases main_class) simp_all
  show ?thesis
    by (simp only: step_bind_result step_bind_world bind_calls_stores step_init_store
          list_or_empty_eq name main EmrStep.simps)
qed

theorem EmrStep_bind_scope_mapping_witness:
  "fst (EmrStep_bind_scope no_duplicate_id
          (fst (EmrStep_init ''wordcount'' ''spark.jar'' (Some ''org.example.WordCount'')
                  (Some [''--input'', ''s3://artifacts/in'']) (Passed CANCEL_AND_WAIT)
                  (Some [PDict [(''Key'', PStr ''mode''), (''Value'', PStr ''fast'')]])
                  (Some 0) sample_world))
          ''stack''
          (snd (EmrStep_init ''wordcount'' ''spark.jar'' (Some ''org.example.WordCount'')
                  (Some [''--input'', ''s3://artifacts/in'']) (Passed CANCEL_AND_WAIT)
                  (Some [PDict [(''Key'', PStr ''mode''), (''Value'', PStr ''fast'')]])
                  (Some 0) sample_world))) =
     Inr (PDict [(''Name'', PStr ''wordcount''),
                 (''ActionOnFailure'', PStr ''CANCEL_AND_WAIT''),
                 (''HadoopJarStep'',
                    PDict [(''Jar'', PStr ''spark.jar''),
                           (''MainClass'', PStr ''org.example.WordCount''),
                           (''Args'', PList [PStr ''--input'', PStr ''s3://artifacts/in'']),
                           (''Properties'',
                              PList [PDict [(''Key'', PStr ''mode''),
                                            (''Value'', PStr ''fast'')]])])]) \<and>
   tree (snd (EmrStep_bind_scope no_duplicate_id
          (fst (EmrStep_init ''wordcount'' ''spark.jar'' (Some ''org.example.WordCount'')
                  (Some [''--input'', ''s3://artifacts/in'']) (Passed CANCEL_AND_WAIT)
                  (Some [PDict [(''Key'', PStr ''mode''), (''Value'', PStr ''fast'')]])
                  (Some 0) sample_world))
          ''stack''
          (snd (EmrStep_init ''wordcount'' ''spark.jar'' (Some ''org.example.WordCount'')
                  (Some [''--input'', ''s3://artifacts/in'']) (Passed CANCEL_AND_WAIT)
                  (Some [PDict [(''Key'', PStr ''mode''), (''Value'', PStr ''fast'')]])
                  (Some 0) sample_world)))) =
     [\<lparr>bd_scope = ''stack'', bd_id = ''BucketDeployment'',
       bd_values = \<lparr>sources = [Asset ''./jars''],
                    destination_bucket = \<lparr>bucket_name = ''artifacts''\<rparr>,
                    destination_key_prefix = Some ''emr/jars''\<rparr>\<rparr>]"
proof -
  let ?init = "EmrStep_init ''wordcount'' ''spark.jar'' (Some ''org.example.WordCount'')
                  (Some [''--input'', ''s3://artifacts/in'']) (Passed CANCEL_AND_WAIT)
                  (Some [PDict [(''Key'', PStr ''mode''), (''Value'', PStr ''fast'')]])
                  (Some 0) sample_world"
  have codes: "code_store (snd ?init) = code_store sample_world"
    and tree: "tree (snd ?init) = tree sample_world"
    by (simp_all add: EmrStep_init_def Let_def)
  have returns: "binds no_duplicate_id (snd ?init) ''stack'' (Some 0)"
    by (simp add: binds_def no_duplicate_id_def tree sample_world_tree)
  have declared: "tree (snd (EmrCode_bind_scope no_duplicate_id 0 ''stack'' (snd ?init))) =
     [\<lparr>bd_scope = ''stack'', bd_id = ''BucketDeployment'',
       bd_values = \<lparr>sources = [Asset ''./jars''],
                    destination_bucket = \<lparr>bucket_name = ''artifacts''\<rparr>,
                    destination_key_prefix = Some ''emr/jars''\<rparr>\<rparr>]"
    by (simp add: bind_code_tree unbound_def requested_def deployment_id_def
          no_duplicate_id_def codes tree sample_world_tree sample_world_code_0)
  show ?thesis
    using EmrStep_bind_scope_mapping
      [of no_duplicate_id "''wordcount''" "''spark.jar''" "Some ''org.example.WordCount''"
          "Some [''--input'', ''s3://artifacts/in'']" "Passed CANCEL_AND_WAIT"
          "Some [PDict [(''Key'', PStr ''mode''), (''Value'', PStr ''fast'')]]"
          "Some 0" sample_world "''stack''" "[]"]
    by (simp add: returns declared)
qed

text \<open>
  C5. A bootstrap action made by the constructor returns from \<open>bind_scope\<close>, at any later
  time and for any scope, the mapping with \<open>Name\<close> and \<open>ScriptBootstrapAction\<close>, the
  latter with \<open>Path\<close> and \<open>Args\<close>; \<open>Args\<close> is the constructor's list, and the empty list
  where the argument was left out or \<open>None\<close>. When a code was given, the world the call
  leaves behind is the one the code's \<open>bind_scope\<close> leaves behind; when the code's
  \<open>bind_scope\<close> raises, so does the call, and no mapping is returned.
\<close>

theorem EmrBootstrapAction_bind_scope_mapping:
  "fst (EmrBootstrapAction_bind_scope fw
          (fst (EmrBootstrapAction_init name path args code w)) scope
          (bind_calls fw cs (snd (EmrBootstrapAction_init name path args code w)))) =
     (if binds fw (bind_calls fw cs (snd (EmrBootstrapAction_init name path args code w)))
           scope code
      then Inr (PDict
             [(''Name'', PStr name),
              (''ScriptBootstrapAction'',
                 PDict [(''Path'', PStr path),
                        (''Args'',
                           PList (map PStr (case args of None \<Rightarrow> [] | Some xs \<Rightarrow> xs)))])])
      else Inl FrameworkError) \<and>
   snd (EmrBootstrapAction_bind_scope fw
          (fst (EmrBootstrapAction_init name path args code w)) scope
          (bind_calls fw cs (snd (EmrBootstrapAction_init name path args code w)))) =
     (case code of
        None \<Rightarrow> bind_calls fw cs (snd (EmrBootstrapAction_init name path args code w))
      | Some c \<Rightarrow>
          snd (EmrCode_bind_scope fw c scope
                 (bind_calls fw cs (snd (EmrBootstrapAction_init name path args code w)))))"
  by (simp only: action_bind_result action_bind_world bind_calls_stores action_init_store
        list_or_empty_eq EmrBootstrapAction.simps)

theorem EmrBootstrapAction_bind_scope_mapping_witness:
  "fst (EmrBootstrapAction_bind_scope no_duplicate_id
          (fst (EmrBootstrapAction_init ''install'' ''s3://artifacts/emr/install.sh'' (Some [])
                  None empty_world))
          ''stack''
          (snd (EmrBootstrapAction_init ''install'' ''s3://artifacts/emr/install.sh'' (Some [])
                  None empty_world))) =
     Inr (PDict [(''Name'', PStr ''install''),
                 (''ScriptBootstrapAction'',
                    PDict [(''Path'', PStr ''s3://artifacts/emr/install.sh''),
                           (''Args'', PList [])])])"
  using EmrBootstrapAction_bind_scope_mapping
    [of no_duplicate_id "''install''" "''s3://artifacts/emr/install.sh''" "Some []" None
        empty_world "''stack''" "[]"]
  by (simp add: binds_def)

text \<open>
  C7. Bootstrap actions and steps are value objects: no list of \<open>bind_scope\<close> calls, on
  any objects and with any scopes, changes a field of any bootstrap action or step (the
  field \<open>code\<close> holds the reference to the \<open>EmrCode\<close>, and it is the reference that
  stays). A call raises exactly when its code cannot be bound, and two calls that
  return, one after such a list and one before it, return equal mappings, whatever the
  two scopes and what the framework accepts.
\<close>

theorem bind_scope_value_objects:
  "action_store (bind_calls fw cs w) = action_store w \<and>
   step_store (bind_calls fw cs w) = step_store w \<and>
   isl (fst (EmrBootstrapAction_bind_scope fw a scope (bind_calls fw cs w))) =
     (\<not> binds fw (bind_calls fw cs w) scope (ba_code (action_store w a))) \<and>
   isl (fst (EmrStep_bind_scope fw a scope (bind_calls fw cs w))) =
     (\<not> binds fw (bind_calls fw cs w) scope (step_code (step_store w a))) \<and>
   (\<not> isl (fst (EmrBootstrapAction_bind_scope fw a scope (bind_calls fw cs w))) \<and>
    \<not> isl (fst (EmrBootstrapAction_bind_scope fw' a scope' w)) \<longrightarrow>
      fst (EmrBootstrapAction_bind_scope fw a scope (bind_calls fw cs w)) =
      fst (EmrBootstrapAction_bind_scope fw' a scope' w)) \<and>
   (\<not> isl (fst (EmrStep_bind_scope fw a scope (bind_calls fw cs w))) \<and>
    \<not> isl (fst (EmrStep_bind_scope fw' a scope' w)) \<longrightarrow>
      fst (EmrStep_bind_scope fw a scope (bind_calls fw cs w)) =
      fst (EmrStep_bind_scope fw' a scope' w))"
  by (simp add: bind_calls_stores action_bind_result step_bind_result)

theorem bind_scope_value_objects_witness:
  "fst (EmrStep_bind_scope no_duplicate_id 1 ''other''
          (bind_calls no_duplicate_id
             [BindStep 1 ''stack'', BindCode 3 ''stack'', BindAction 2 ''stack'',
              BindCode 0 ''other''] sample_world)) =
   fst (EmrStep_bind_scope no_duplicate_id 1 ''stack'' sample_world) \<and>
   fst (EmrBootstrapAction_bind_scope no_duplicate_id 2 ''other''
          (bind_calls no_duplicate_id
             [BindStep 1 ''stack'', BindCode 3 ''stack'', BindAction 2 ''stack'',
              BindCode 0 ''other''] sample_world)) =
   fst (EmrBootstrapAction_bind_scope no_duplicate_id 2 ''stack'' sample_world) \<and>
   fst (EmrStep_bind_scope no_duplicate_id 1 ''stack'' sample_world) =
     Inr (PDict [(''Name'', PStr ''wordcount''),
                 (''ActionOnFailure'', PStr ''CONTINUE''),
                 (''HadoopJarStep'',
                    PDict [(''Jar'', PStr ''command-runner.jar''),
                           (''MainClass'', PNone),
                           (''Args'', PList [PStr ''spark-submit'', PStr ''wordcount.py'']),
                           (''Properties'', PList [])])])"
proof -
  let ?cs = "[BindStep 1 ''stack'', BindCode 3 ''stack'', BindAction 2 ''stack'',
              BindCode 0 ''other'']"
  let ?w = "bind_calls no_duplicate_id ?cs sample_world"
  have before: "binds no_duplicate_id sample_world ''stack'' (Some 0)"
    by (simp add: binds_def no_duplicate_id_def sample_world_tree)
  have after: "binds no_duplicate_id ?w ''other'' (Some 0)"
    unfolding sample_run by (simp add: binds_def sample_first_call)
  have s0: "step_code (step_store sample_world 1) = Some 0"
    and a0: "ba_code (action_store sample_world 2) = Some 0"
    by (simp_all add: sample_world_step sample_world_action)
  note fact = bind_scope_value_objects
    [of no_duplicate_id ?cs sample_world _ "''other''" no_duplicate_id "''stack''"]
  have s1: "\<not> isl (fst (EmrStep_bind_scope no_duplicate_id 1 ''other'' ?w))"
    using fact [of 1] by (simp only: s0 after) simp
  have s2: "\<not> isl (fst (EmrStep_bind_scope no_duplicate_id 1 ''stack'' sample_world))"
    by (simp only: step_bind_result s0 before) simp
  have a1: "\<not> isl (fst (EmrBootstrapAction_bind_scope no_duplicate_id 2 ''other'' ?w))"
    using fact [of 2] by (simp only: a0 after) simp
  have a2: "\<not> isl (fst (EmrBootstrapAction_bind_scope no_duplicate_id 2 ''stack''
                          sample_world))"
    by (simp only: action_bind_result a0 before) simp
  have steps: "fst (EmrStep_bind_scope no_duplicate_id 1 ''other'' ?w) =
               fst (EmrStep_bind_scope no_duplicate_id 1 ''stack'' sample_world)"
    using fact [of 1] s1 s2 by blast
  have acts: "fst (EmrBootstrapAction_bind_scope no_duplicate_id 2 ''other'' ?w) =
              fst (EmrBootstrapAction_bind_scope no_duplicate_id 2 ''stack'' sample_world)"
    using fact [of 2] a1 a2 by blast
  have mapping: "fst (EmrStep_bind_scope no_duplicate_id 1 ''stack'' sample_world) =
     Inr (PDict [(''Name'', PStr ''wordcount''),
                 (''ActionOnFailure'', PStr ''CONTINUE''),
                 (''HadoopJarStep'',
                    PDict [(''Jar'', PStr ''command-runner.jar''),
                           (''MainClass'', PNone),
                           (''Args'', PList [PStr ''spark-submit'', PStr ''wordcount.py'']),
                           (''Properties'', PList [])])])"
    by (simp only: step_bind_result s0 before) (simp add: sample_world_step)
  show ?thesis
    using steps acts mapping by blast
qed

text \<open>
  C10. The \<open>ActionOnFailure\<close> entry of the mapping a step returns is the name of the
  step's \<open>StepFailureAction\<close> member. The name of every member is its value and is one of
  the four strings, and a step made without \<open>action_on_failure\<close> has the entry
  \<open>CONTINUE\<close>. A call that raises returns no mapping.
\<close>

theorem EmrStep_action_on_failure_entry:
  "map_sum id (\<lambda>d. dict_get d ''ActionOnFailure'') (fst (EmrStep_bind_scope fw self scope w)) =
     (if binds fw w scope (step_code (step_store w self))
      then Inr (Some (PStr (StepFailureAction_name (step_action_on_failure (step_store w self)))))
      else Inl FrameworkError) \<and>
   StepFailureAction_name m = StepFailureAction_value m \<and>
   StepFailureAction_name m \<in>
     set [''TERMINATE_JOB_FLOW'', ''TERMINATE_CLUSTER'', ''CANCEL_AND_WAIT'', ''CONTINUE''] \<and>
   map_sum id (\<lambda>d. dict_get d ''ActionOnFailure'')
     (fst (EmrStep_bind_scope fw
             (fst (EmrStep_init name jar main_class args Omitted properties code w)) scope
             (snd (EmrStep_init name jar main_class args Omitted properties code w)))) =
     (if binds fw (snd (EmrStep_init name jar main_class args Omitted properties code w))
           scope code
      then Inr (Some (PStr ''CONTINUE''))
      else Inl FrameworkError)"
proof -
  have entry: "\<And>self w.
     map_sum id (\<lambda>d. dict_get d ''ActionOnFailure'')
       (fst (EmrStep_bind_scope fw self scope w)) =
     (if binds fw w scope (step_code (step_store w self))
      then Inr (Some (PStr (StepFailureAction_name
                              (step_action_on_failure (step_store w self)))))
      else Inl FrameworkError)"
    by (simp add: step_bind_result)
  have nv: "StepFailureAction_name m = StepFailureAction_value m"
    by (rule StepFailureAction_name_value)
  have mem: "StepFailureAction_name m \<in>
     set [''TERMINATE_JOB_FLOW'', ''TERMINATE_CLUSTER'', ''CANCEL_AND_WAIT'', ''CONTINUE'']"
    by (cases m) simp_all
  show ?thesis
    using nv mem by (simp add: entry step_init_store)
qed

theorem EmrStep_action_on_failure_entry_witness:
  "map_sum id (\<lambda>d. dict_get d ''ActionOnFailure'')
     (fst (EmrStep_bind_scope no_duplicate_id 1 ''stack'' sample_world)) =
   Inr (Some (PStr ''CONTINUE''))"
  using EmrStep_action_on_failure_entry [of no_duplicate_id 1 "''stack''" sample_world]
  by (simp add: sample_world_step binds_def no_duplicate_id_def sample_world_tree)

section \<open>Properties of emr\_utilities.py\<close>

text \<open>
  C3. The initial policy of each of the three functions of \<open>StepFunctionLambdas\<close> has
  one allowing statement, with the fixed list of actions of that function.
\<close>

theorem StepFunctionLambdas_actions:
  "allowed_actions (run_job_flow (StepFunctionLambdas_init lambda_path scope ident)) =
     [[''elasticmapreduce:RunJobFlow'', ''elasticmapreduce:ListClusters'',
       ''elasticmapreduce:ListSteps'']] \<and>
   allowed_actions (add_job_flow_steps (StepFunctionLambdas_init lambda_path scope ident)) =
     [[''elasticmapreduce:AddJobFlowSteps'']] \<and>
   allowed_actions (check_step_status (StepFunctionLambdas_init lambda_path scope ident)) =
     [[''elasticmapreduce:DescribeCluster'', ''elasticmapreduce:DescribeStep'',
       ''cloudwatch:PutMetricData'']]"
  by (simp add: StepFunctionLambdas_init_def allowed_actions_def Let_def)

subsection \<open>The environment of LaunchEMRConfigLambda\<close>

lemma dict_with_Cons: "dict_with d ((k, v) # kw) = dict_with (AList.update k v d) kw"
  by (simp add: dict_with_def)

lemma dict_with_get:
  "distinct (map fst kw) \<Longrightarrow>
   map_of (dict_with d kw) k = (case map_of kw k of Some v \<Rightarrow> Some v | None \<Rightarrow> map_of d k)"
proof (induction kw arbitrary: d)
  case Nil
  show ?case by (simp add: dict_with_def)
next
  case (Cons p kw)
  obtain k' v where p: "p = (k', v)" by (cases p)
  from Cons.prems have fresh: "map_of kw k' = None" and dist: "distinct (map fst kw)"
    by (auto simp add: p map_of_eq_None_iff)
  have "map_of (dict_with d (p # kw)) k =
        (case map_of kw k of Some v \<Rightarrow> Some v | None \<Rightarrow> map_of (AList.update k' v d) k)"
    unfolding p dict_with_Cons using dist by (rule Cons.IH)
  then show ?case
    using fresh by (simp add: p update_conv split: option.splits)
qed

lemma env_keys_distinct:
  "distinct (map fst (LaunchEMRConfigLambda_environment jd sf cfg wt fj st ft))"
  by (simp add: LaunchEMRConfigLambda_environment_def Let_def split: option.splits)

lemma init_environment:
  "fn_environment (fst (LaunchEMRConfigLambda_init jd scope ident props sf cfg wt fj st ft)) =
     dict_with (case environment props of None \<Rightarrow> [] | Some e \<Rightarrow> e)
       (LaunchEMRConfigLambda_environment jd sf cfg wt fj st ft)"
  by (simp add: LaunchEMRConfigLambda_init_def fn_environment_def Let_def)

lemma init_environment_get:
  "map_of (fn_environment
             (fst (LaunchEMRConfigLambda_init jd scope ident props sf cfg wt fj st ft))) k =
     (case map_of (LaunchEMRConfigLambda_environment jd sf cfg wt fj st ft) k of
        Some v \<Rightarrow> Some v
      | None \<Rightarrow> map_of (case environment props of None \<Rightarrow> [] | Some e \<Rightarrow> e) k)"
  by (simp only: init_environment dict_with_get [OF env_keys_distinct])

lemma env_step_function_arn:
  "map_of (LaunchEMRConfigLambda_environment jd sf cfg wt fj st ft)
     ''DEFAULT_STEP_FUNCTION_ARN'' = Some (state_machine_arn sf)"
  by (simp add: LaunchEMRConfigLambda_environment_def Let_def update_conv split: option.splits)

lemma env_cluster_config:
  "map_of (LaunchEMRConfigLambda_environment jd sf cfg wt fj st ft)
     ''DEFAULT_CLUSTER_CONFIG'' = Some (jd cfg)"
  by (simp add: LaunchEMRConfigLambda_environment_def Let_def update_conv split: option.splits)

lemma env_wait_time:
  "map_of (LaunchEMRConfigLambda_environment jd sf cfg wt fj st ft)
     ''DEFAULT_STEP_FUNCTION_WAIT_TIME'' = Some (str_opt_int (kwarg_default (Some 60) wt))"
  by (simp add: LaunchEMRConfigLambda_environment_def Let_def update_conv split: option.splits)

lemma env_fail_if_job_running:
  "map_of (LaunchEMRConfigLambda_environment jd sf cfg wt fj st ft)
     ''DEFAULT_FAIL_IF_JOB_RUNNING'' = Some (str_opt_bool (kwarg_default (Some False) fj))"
  by (simp add: LaunchEMRConfigLambda_environment_def Let_def update_conv split: option.splits)

lemma env_success_topic:
  "map_of (LaunchEMRConfigLambda_environment jd sf cfg wt fj st ft)
     ''DEFAULT_SUCCESS_TOPIC_ARN'' = map_option topic_arn st"
  by (simp add: LaunchEMRConfigLambda_environment_def Let_def update_conv split: option.splits)

lemma env_failure_topic:
  "map_of (LaunchEMRConfigLambda_environment jd sf cfg wt fj st ft)
     ''DEFAULT_FAILURE_TOPIC_ARN'' = map_option topic_arn ft"
  by (simp add: LaunchEMRConfigLambda_environment_def Let_def update_conv split: option.splits)

lemma env_unprefixed:
  "map_of (LaunchEMRConfigLambda_environment jd sf cfg wt fj st ft) ''SUCCESS_TOPIC_ARN'' = None"
  "map_of (LaunchEMRConfigLambda_environment jd sf cfg wt fj st ft) ''FAILURE_TOPIC_ARN'' = None"
  by (simp_all add: LaunchEMRConfigLambda_environment_def Let_def update_conv
        split: option.splits)

lemma env_keys:
  "(k \<in> fst ` set (LaunchEMRConfigLambda_environment jd sf cfg wt fj st ft)) =
   (map_of (LaunchEMRConfigLambda_environment jd sf cfg wt fj st ft) k \<noteq> None)"
  by (simp add: map_of_eq_None_iff)


lemma init_props_after:
  "snd (LaunchEMRConfigLambda_init jd scope ident props sf cfg wt fj st ft) =
   fn_values (fst (LaunchEMRConfigLambda_init jd scope ident props sf cfg wt fj st ft))"
  by (simp add: LaunchEMRConfigLambda_init_def Let_def)

text \<open>
  C9. In the environment of the declared function, a key of the constructor's own
  environment has the constructor's value, also when the props' environment had the same
  key, and every other key has what the props' environment has for it.
\<close>

theorem LaunchEMRConfigLambda_environment_merge:
  "map_of (fn_environment
             (fst (LaunchEMRConfigLambda_init jd scope ident props sf cfg wt fj st ft))) k =
     (case map_of (LaunchEMRConfigLambda_environment jd sf cfg wt fj st ft) k of
        Some v \<Rightarrow> Some v
      | None \<Rightarrow> map_of (case environment props of None \<Rightarrow> [] | Some e \<Rightarrow> e) k)"
  by (rule init_environment_get)

theorem LaunchEMRConfigLambda_environment_merge_witness:
  "map_of (fn_environment
             (fst (LaunchEMRConfigLambda_init (\<lambda>cfg. ''{}'') ''stack'' ''launch'' sample_props
                     \<lparr>state_machine_arn = ''arn:sfn''\<rparr> (PDict []) Omitted Omitted None
                     (Some \<lparr>topic_arn = ''arn:new''\<rparr>))))
          ''DEFAULT_FAILURE_TOPIC_ARN'' = Some ''arn:new'' \<and>
   map_of (fn_environment
             (fst (LaunchEMRConfigLambda_init (\<lambda>cfg. ''{}'') ''stack'' ''launch'' sample_props
                     \<lparr>state_machine_arn = ''arn:sfn''\<rparr> (PDict []) Omitted Omitted None
                     (Some \<lparr>topic_arn = ''arn:new''\<rparr>))))
          ''STAGE'' = Some ''prod''"
  using
    LaunchEMRConfigLambda_environment_merge [of "\<lambda>cfg. ''{}''" "''stack''" "''launch''"
      sample_props "\<lparr>state_machine_arn = ''arn:sfn''\<rparr>" "PDict []" Omitted Omitted None
      "Some \<lparr>topic_arn = ''arn:new''\<rparr>" "''DEFAULT_FAILURE_TOPIC_ARN''"]
    LaunchEMRConfigLambda_environment_merge [of "\<lambda>cfg. ''{}''" "''stack''" "''launch''"
      sample_props "\<lparr>state_machine_arn = ''arn:sfn''\<rparr>" "PDict []" Omitted Omitted None
      "Some \<lparr>topic_arn = ''arn:new''\<rparr>" "''STAGE''"]
  by (simp add: LaunchEMRConfigLambda_environment_def sample_props_def update_conv)

text \<open>
  C2, as the code has it. The environment of the declared function always has the four
  base keys, with the ARN of the state machine, the serialised cluster configuration and
  the two defaults as strings. The topic keys are \<open>DEFAULT_SUCCESS_TOPIC_ARN\<close> and
  \<open>DEFAULT_FAILURE_TOPIC_ARN\<close>: the constructor's own environment has such a key exactly
  when the topic is supplied. In the function's environment the key then carries the
  topic's ARN; without the topic it is there only as far as the props' environment
  brought it.
\<close>

theorem LaunchEMRConfigLambda_environment_keys:
  "map_of (fn_environment
             (fst (LaunchEMRConfigLambda_init jd scope ident props sf cfg wt fj st ft)))
          ''DEFAULT_STEP_FUNCTION_ARN'' = Some (state_machine_arn sf) \<and>
   map_of (fn_environment
             (fst (LaunchEMRConfigLambda_init jd scope ident props sf cfg wt fj st ft)))
          ''DEFAULT_CLUSTER_CONFIG'' = Some (jd cfg) \<and>
   map_of (fn_environment
             (fst (LaunchEMRConfigLambda_init jd scope ident props sf cfg wt fj st ft)))
          ''DEFAULT_STEP_FUNCTION_WAIT_TIME'' =
     Some (str_opt_int (kwarg_default (Some 60) wt)) \<and>
   map_of (fn_environment
             (fst (LaunchEMRConfigLambda_init jd scope ident props sf cfg wt fj st ft)))
          ''DEFAULT_FAIL_IF_JOB_RUNNING'' =
     Some (str_opt_bool (kwarg_default (Some False) fj)) \<and>
   map_of (fn_environment
             (fst (LaunchEMRConfigLambda_init jd scope ident props sf cfg wt fj st ft)))
          ''DEFAULT_SUCCESS_TOPIC_ARN'' =
     (case st of
        Some t \<Rightarrow> Some (topic_arn t)
      | None \<Rightarrow> map_of (case environment props of None \<Rightarrow> [] | Some e \<Rightarrow> e)
                  ''DEFAULT_SUCCESS_TOPIC_ARN'') \<and>
   map_of (fn_environment
             (fst (LaunchEMRConfigLambda_init jd scope ident props sf cfg wt fj st ft)))
          ''DEFAULT_FAILURE_TOPIC_ARN'' =
     (case ft of
        Some t \<Rightarrow> Some (topic_arn t)
      | None \<Rightarrow> map_of (case environment props of None \<Rightarrow> [] | Some e \<Rightarrow> e)
                  ''DEFAULT_FAILURE_TOPIC_ARN'') \<and>
   (''DEFAULT_SUCCESS_TOPIC_ARN'' \<in>
      fst ` set (LaunchEMRConfigLambda_environment jd sf cfg wt fj st ft)) = (st \<noteq> None) \<and>
   (''DEFAULT_FAILURE_TOPIC_ARN'' \<in>
      fst ` set (LaunchEMRConfigLambda_environment jd sf cfg wt fj st ft)) = (ft \<noteq> None)"
  unfolding env_keys init_environment_get env_step_function_arn env_cluster_config
    env_wait_time env_fail_if_job_running env_success_topic env_failure_topic
  by (simp split: option.splits)

theorem LaunchEMRConfigLambda_environment_keys_witness:
  "map_of (fn_environment
             (fst (LaunchEMRConfigLambda_init (\<lambda>cfg. ''{}'') ''stack'' ''launch'' sample_props
                     \<lparr>state_machine_arn = ''arn:sfn''\<rparr> (PDict []) Omitted (Passed None)
                     (Some \<lparr>topic_arn = ''arn:ok''\<rparr>) None)))
          ''DEFAULT_STEP_FUNCTION_WAIT_TIME'' = Some ''60'' \<and>
   map_of (fn_environment
             (fst (LaunchEMRConfigLambda_init (\<lambda>cfg. ''{}'') ''stack'' ''launch'' sample_props
                     \<lparr>state_machine_arn = ''arn:sfn''\<rparr> (PDict []) Omitted (Passed None)
                     (Some \<lparr>topic_arn = ''arn:ok''\<rparr>) None)))
          ''DEFAULT_FAIL_IF_JOB_RUNNING'' = Some ''None'' \<and>
   map_of (fn_environment
             (fst (LaunchEMRConfigLambda_init (\<lambda>cfg. ''{}'') ''stack'' ''launch'' sample_props
                     \<lparr>state_machine_arn = ''arn:sfn''\<rparr> (PDict []) Omitted (Passed None)
                     (Some \<lparr>topic_arn = ''arn:ok''\<rparr>) None)))
          ''DEFAULT_SUCCESS_TOPIC_ARN'' = Some ''arn:ok'' \<and>
   map_of (fn_environment
             (fst (LaunchEMRConfigLambda_init (\<lambda>cfg. ''{}'') ''stack'' ''launch'' sample_props
                     \<lparr>state_machine_arn = ''arn:sfn''\<rparr> (PDict []) Omitted (Passed None)
                     (Some \<lparr>topic_arn = ''arn:ok''\<rparr>) None)))
          ''DEFAULT_FAILURE_TOPIC_ARN'' = Some ''arn:old''"
proof -
  have sixty: "str_int 60 = ''60''"
    by code_simp
  show ?thesis
    using LaunchEMRConfigLambda_environment_keys [of "\<lambda>cfg. ''{}''" "''stack''" "''launch''"
      sample_props "\<lparr>state_machine_arn = ''arn:sfn''\<rparr>" "PDict []" Omitted "Passed None"
      "Some \<lparr>topic_arn = ''arn:ok''\<rparr>" None]
    by (simp add: sixty sample_props_def)
qed

text \<open>
  C2, as it is stated, fails. With a success topic, no failure topic, and props whose
  environment already has \<open>DEFAULT_FAILURE_TOPIC_ARN\<close>, the function's environment has no
  key \<open>SUCCESS_TOPIC_ARN\<close> although the success topic is supplied, and it has the failure
  key of the props although no failure topic is supplied.
\<close>

theorem LaunchEMRConfigLambda_topic_keys_counterexample:
  "map_of (fn_environment
             (fst (LaunchEMRConfigLambda_init (\<lambda>cfg. ''{}'') ''stack'' ''launch'' sample_props
                     \<lparr>state_machine_arn = ''arn:sfn''\<rparr> (PDict []) Omitted Omitted
                     (Some \<lparr>topic_arn = ''arn:ok''\<rparr>) None)))
          ''SUCCESS_TOPIC_ARN'' = None \<and>
   map_of (fn_environment
             (fst (LaunchEMRConfigLambda_init (\<lambda>cfg. ''{}'') ''stack'' ''launch'' sample_props
                     \<lparr>state_machine_arn = ''arn:sfn''\<rparr> (PDict []) Omitted Omitted
                     (Some \<lparr>topic_arn = ''arn:ok''\<rparr>) None)))
          ''DEFAULT_FAILURE_TOPIC_ARN'' = Some ''arn:old''"
  unfolding init_environment_get env_unprefixed env_failure_topic
  by (simp add: sample_props_def)

end
